theory Spec2Isabelle
  imports Complex_Main "HOL-Library.Sublist" "HOL-Library.Multiset"
begin

section \<open>The error handler of \<^verbatim>\<open>bot/cogs/error_handler.py\<close>\<close>

text \<open>
  The module is one coroutine, \<^verbatim>\<open>ErrorHandler.on_command_error\<close>, and its helper
  \<^verbatim>\<open>handle_unexpected_error\<close>. Everything it touches belongs to the command framework:
  the exception classes, the context, the command registry of the bot, the Tags cog, the
  logger and \<^verbatim>\<open>difflib\<close>. The model keeps the handler's own control flow and
  takes what the framework supplies as data:
  \<^item> an exception is a value carrying its class, the classes it inherits from, and the
    attributes the handler reads;
  \<^item> the context, the commands and the bot are records of the attributes and of the results
    of the calls the handler makes on them;
  \<^item> sending, invoking help, asking the Tags cog to display a tag and logging are events
    appended to a trace, in the order of the source; these framework calls are taken to return;
  \<^item> an exception leaving the handler is the outcome \<open>Raised\<close>;
  \<^item> the matcher is an argument of the handler; the second section models the one the
    source calls, \<^verbatim>\<open>difflib.get_close_matches\<close> of the Python library.
\<close>

subsection \<open>Exceptions\<close>

text \<open>
  The classes the handler names (lines 6 to 24), and any other class by its name.
\<close>

datatype exc_class =
    CommandError
  | CommandNotFound
  | UserInputError
  | BadArgument
  | NoPrivateMessage
  | BotMissingPermissions
  | MissingPermissions
  | InChannelCheckFailure
  | CheckFailure
  | CommandOnCooldown
  | DisabledCommand
  | CommandInvokeError
  | ResponseCodeError
  | OtherClass string

text \<open>\<^verbatim>\<open>cls.__name__\<close>.\<close>

fun class_name :: "exc_class \<Rightarrow> string" where
  "class_name CommandError = ''CommandError''"
| "class_name CommandNotFound = ''CommandNotFound''"
| "class_name UserInputError = ''UserInputError''"
| "class_name BadArgument = ''BadArgument''"
| "class_name NoPrivateMessage = ''NoPrivateMessage''"
| "class_name BotMissingPermissions = ''BotMissingPermissions''"
| "class_name MissingPermissions = ''MissingPermissions''"
| "class_name InChannelCheckFailure = ''InChannelCheckFailure''"
| "class_name CheckFailure = ''CheckFailure''"
| "class_name CommandOnCooldown = ''CommandOnCooldown''"
| "class_name DisabledCommand = ''DisabledCommand''"
| "class_name CommandInvokeError = ''CommandInvokeError''"
| "class_name ResponseCodeError = ''ResponseCodeError''"
| "class_name (OtherClass n) = n"

text \<open>
  The response held by an API error: \<^verbatim>\<open>response.status\<close> and the \<^verbatim>\<open>repr\<close> of what
  \<^verbatim>\<open>await response.json()\<close> returns.
\<close>

record response =
  status :: int
  json_repr :: string

text \<open>
  An exception object: its class, the proper ancestors of that class, \<^verbatim>\<open>str(e)\<close>,
  whether it has the attribute \<^verbatim>\<open>handled\<close>, and the attributes \<^verbatim>\<open>missing_perms\<close>,
  \<^verbatim>\<open>original\<close> and \<^verbatim>\<open>response\<close> (\<open>None\<close> where the object has no such attribute).
  The class hierarchy of the framework is thus part of the input, not fixed by the model.
\<close>

datatype error = Error
  (cls: exc_class)
  (bases: "exc_class list")
  (message: string)
  (handled: bool)
  (missing_perms: "string list")
  (original: "error option")
  (response: "response option")

definition isinstance :: "error \<Rightarrow> exc_class \<Rightarrow> bool" where
  "isinstance e c = (cls e = c \<or> c \<in> set (bases e))"

text \<open>What can leave the handler: an exception object of the framework, or one of the two
  exceptions the interpreter raises for the handler's own expressions.\<close>

datatype exn = Exc error | IndexError | AttributeError

subsection \<open>Commands, context, bot\<close>

text \<open>What awaiting \<^verbatim>\<open>Command.can_run(ctx)\<close> gives: a boolean, or an exception.\<close>

datatype check_outcome = Returns bool | Raises error

text \<open>
  \<^verbatim>\<open>can_run\<close> is a coroutine function (line 87 awaits its result): calling it runs
  nothing and returns a coroutine object; only \<^verbatim>\<open>await\<close> runs the checks. A coroutine
  object defines neither \<^verbatim>\<open>__bool__\<close> nor \<^verbatim>\<open>__len__\<close>, so its truth value is \<open>True\<close>.
\<close>

datatype 'a coroutine = Coroutine 'a

fun await :: "check_outcome coroutine \<Rightarrow> exn + bool" where
  "await (Coroutine (Returns b)) = Inr b"
| "await (Coroutine (Raises err)) = Inl (Exc err)"

definition truthy :: "'a coroutine \<Rightarrow> bool" where
  "truthy co = True"

record command =
  name :: string
  qualified_name :: string
  parent :: "string option"
  aliases :: "string list"
  hidden :: bool
  can_run :: check_outcome

text \<open>\<^verbatim>\<open>cmd.can_run(ctx)\<close> on what \<^verbatim>\<open>get_command\<close> returned: on \<open>None\<close> the attribute
  lookup raises.\<close>

definition call_can_run :: "command option \<Rightarrow> exn + check_outcome coroutine" where
  "call_can_run c = (case c of None \<Rightarrow> Inl AttributeError
                     | Some cmd \<Rightarrow> Inr (Coroutine (can_run cmd)))"

record Context =
  command :: "command option"
  channel_id :: int
  invoked_with :: string
  content :: string
  author :: string
  invoked_from_error_handler :: bool

text \<open>The Tags cog: \<^verbatim>\<open>await display_tag(ctx, name)\<close>.\<close>

record tags_cog =
  display_tag :: "string \<Rightarrow> bool"

record bot =
  get_cog_Tags :: "tags_cog option"
  get_command :: "string \<Rightarrow> command option"
  walk_commands :: "command list"

text \<open>
  What the module imports and this file does not define: the constants
  \<^verbatim>\<open>Channels.verification\<close> and \<^verbatim>\<open>Icons.questionmark\<close>, and
  \<^verbatim>\<open>difflib.get_close_matches(word, possibilities, 1)\<close>, called with its default cutoff.
\<close>

record env =
  verification :: int
  questionmark :: string
  get_close_matches :: "string \<Rightarrow> string list \<Rightarrow> string list"

subsection \<open>Effects\<close>

datatype level = TRACE | DEBUG | WARNING | ERROR

record embed =
  author_name :: string
  icon_url :: string
  description :: string

datatype event =
    Send string
  | SendEmbed embed nat
  | Invoke "command option" "string list"
  | DisplayTag string
  | Log level string

datatype outcome = Returned | Raised exn

text \<open>
  What one call of the handler does: how it ends, the context as it leaves it, the events
  in order, and how many calls of the handler are nested inside this one.
\<close>

record result =
  outcome :: outcome
  ctx_after :: Context
  events :: "event list"
  depth :: nat

subsection \<open>Formatting\<close>

text \<open>\<^verbatim>\<open>str\<close> of an integer, as an f-string prints it.\<close>

definition digit_char :: "nat \<Rightarrow> char" where
  "digit_char d = ''0123456789'' ! d"

function str_nat :: "nat \<Rightarrow> string" where
  "str_nat n = (if n < 10 then [digit_char n] else str_nat (n div 10) @ [digit_char (n mod 10)])"
  by pat_completeness auto
termination
  by (relation "measure id") auto

declare str_nat.simps [simp del]

definition str_int :: "int \<Rightarrow> string" where
  "str_int i = (if i < 0 then CHR ''-'' # str_nat (nat (- i)) else str_nat (nat i))"

text \<open>\<^verbatim>\<open>str(command)\<close>: the qualified name of a command, \<^verbatim>\<open>None\<close> without one.\<close>

definition str_command :: "command option \<Rightarrow> string" where
  "str_command c = (case c of None \<Rightarrow> ''None'' | Some cmd \<Rightarrow> qualified_name cmd)"

text \<open>\<^verbatim>\<open>repr\<close> of a list of permission names (names without quotes or backslashes).\<close>

fun join_repr :: "string list \<Rightarrow> string" where
  "join_repr [] = []"
| "join_repr [p] = [CHR 0x27] @ p @ [CHR 0x27]"
| "join_repr (p # ps) = [CHR 0x27] @ p @ [CHR 0x27] @ '', '' @ join_repr ps"

definition repr_list :: "string list \<Rightarrow> string" where
  "repr_list ps = ''['' @ join_repr ps @ '']''"

text \<open>\<^verbatim>\<open>s.replace(old, new, 1)\<close>: the first occurrence of \<open>old\<close>, from the left.\<close>

fun replace_first :: "string \<Rightarrow> string \<Rightarrow> string \<Rightarrow> string" where
  "replace_first old new [] = (if old = [] then new else [])"
| "replace_first old new (c # cs) =
     (if prefix old (c # cs) then new @ drop (length old) (c # cs)
      else c # replace_first old new cs)"

subsection \<open>Results\<close>

definition finish :: "Context \<Rightarrow> event list \<Rightarrow> result" where
  "finish ctx evs = \<lparr>outcome = Returned, ctx_after = ctx, events = evs, depth = 0\<rparr>"

definition raising :: "Context \<Rightarrow> event list \<Rightarrow> exn \<Rightarrow> result" where
  "raising ctx evs x = \<lparr>outcome = Raised x, ctx_after = ctx, events = evs, depth = 0\<rparr>"

text \<open>A nested call of the handler, after the events \<open>evs\<close> of the caller; the caller
  returns when the nested call does, and an exception of the nested call leaves the caller.\<close>

definition redispatch :: "event list \<Rightarrow> result \<Rightarrow> result" where
  "redispatch evs r = r\<lparr>events := evs @ events r, depth := Suc (depth r)\<rparr>"

text \<open>\<^verbatim>\<open>except CommandError as err\<close>: the clause catches instances of \<^verbatim>\<open>CommandError\<close>
  only.\<close>

definition caught :: "exn \<Rightarrow> error option" where
  "caught x = (case x of Exc err \<Rightarrow> if isinstance err CommandError then Some err else None
               | IndexError \<Rightarrow> None
               | AttributeError \<Rightarrow> None)"

subsection \<open>The handler\<close>

text \<open>Lines 57 to 69: the arguments of \<^verbatim>\<open>ctx.invoke(*help_command)\<close>.\<close>

definition help_command :: "bot \<Rightarrow> Context \<Rightarrow> command option \<times> string list" where
  "help_command b ctx =
     (case command ctx of
        None \<Rightarrow> (get_command b ''help'', [])
      | Some c \<Rightarrow>
          (case parent c of
             Some p \<Rightarrow> (get_command b ''help'', [p, name c])
           | None \<Rightarrow> (get_command b ''help'', [name c])))"

text \<open>Lines 101 to 104: names and aliases of the commands that are not hidden.\<close>

fun raw_commands :: "command list \<Rightarrow> string list \<Rightarrow> string list" where
  "raw_commands [] acc = acc"
| "raw_commands (c # cs) acc =
     raw_commands cs (if \<not> hidden c then acc @ (name c # aliases c) else acc)"

text \<open>The log line of lines 131 to 134 and 150 to 153.\<close>

definition invoked_with_error :: "Context \<Rightarrow> error \<Rightarrow> string" where
  "invoked_with_error ctx e =
     ''Command '' @ str_command (command ctx) @ '' invoked by '' @ author ctx
       @ '' with error '' @ class_name (cls e) @ '': '' @ message e"

text \<open>Lines 175 to 185.\<close>

definition handle_unexpected_error :: "Context \<Rightarrow> error \<Rightarrow> result" where
  "handle_unexpected_error ctx e =
     raising ctx
       [Send (''Sorry, an unexpected error occurred. Please let us know!'' @ [CHR 0x0A, CHR 0x0A]
              @ ''```'' @ class_name (cls e) @ '': '' @ message e @ ''```''),
        Log ERROR (''Error executing command invoked by '' @ author ctx @ '': '' @ content ctx)]
       (Exc e)"

text \<open>
  The handler calls itself at lines 92 and 116, and returns right after the call. The two
  blocks that contain these calls are written as functions that either end the handler with a
  result or ask for the nested call: the events so far, and the context and the exception
  the handler is called on again.
\<close>

datatype step = Done result | Again "event list" Context error

text \<open>Lines 99 to 123, reached when no tag was displayed: the similar command.\<close>

definition suggest_command :: "env \<Rightarrow> bot \<Rightarrow> Context \<Rightarrow> string \<Rightarrow> step" where
  "suggest_command v b ctx1 command_name =
     (case get_close_matches v command_name (raw_commands (walk_commands b) []) of
        [] \<Rightarrow> Done (raising ctx1 [DisplayTag command_name] IndexError)
      | similar_command_name # _ \<Rightarrow>
          (case (case call_can_run (get_command b similar_command_name) of
                   Inl x \<Rightarrow> Inl x
                 | Inr co \<Rightarrow> Inr (truthy co)) of
             Inl x \<Rightarrow>
               (case caught x of
                  Some cmd_error \<Rightarrow>
                    Again [DisplayTag command_name,
                           Log DEBUG ''Cancelling attempt to suggest a command due to failed checks.'']
                      ctx1 cmd_error
                | None \<Rightarrow> Done (raising ctx1 [DisplayTag command_name] x))
           | Inr ok \<Rightarrow>
               if \<not> ok then
                 Done (finish ctx1
                   [DisplayTag command_name,
                    Log DEBUG ''Cancelling attempt to suggest a command due to failed checks.''])
               else
                 Done (finish ctx1
                   [DisplayTag command_name,
                    SendEmbed
                      \<lparr>author_name = ''Did you mean:'',
                       icon_url = questionmark v,
                       description =
                         replace_first command_name similar_command_name (content ctx1)\<rparr>
                      7])))"

text \<open>Lines 77 to 123, the body of the branch for \<^verbatim>\<open>CommandNotFound\<close>.\<close>

definition fallback :: "env \<Rightarrow> bot \<Rightarrow> Context \<Rightarrow> step" where
  "fallback v b ctx =
     (if \<not> channel_id ctx = verification v then
        (if get_cog_Tags b = None \<and> get_command b ''tags get'' = None then Done (finish ctx [])
         else
           (case (case call_can_run (get_command b ''tags get'') of
                    Inl x \<Rightarrow> Inl x
                  | Inr co \<Rightarrow> await co) of
              Inl x \<Rightarrow>
                (case caught x of
                   Some tag_error \<Rightarrow>
                     Again [Log DEBUG ''Cancelling attempt to fall back to a tag due to failed checks.'']
                       (ctx\<lparr>invoked_from_error_handler := True\<rparr>) tag_error
                 | None \<Rightarrow> Done (raising (ctx\<lparr>invoked_from_error_handler := True\<rparr>) [] x))
            | Inr ok \<Rightarrow>
                if \<not> ok then
                  Done (finish (ctx\<lparr>invoked_from_error_handler := True\<rparr>)
                    [Log DEBUG ''Cancelling attempt to fall back to a tag due to failed checks.''])
                else
                  (case get_cog_Tags b of
                     None \<Rightarrow>
                       Done (raising (ctx\<lparr>invoked_from_error_handler := True\<rparr>) [] AttributeError)
                   | Some tc \<Rightarrow>
                       if display_tag tc (invoked_with ctx)
                       then Done (finish (ctx\<lparr>invoked_from_error_handler := True\<rparr>)
                                    [DisplayTag (invoked_with ctx)])
                       else suggest_command v b (ctx\<lparr>invoked_from_error_handler := True\<rparr>)
                              (invoked_with ctx))))
      else Done (finish ctx []))"

text \<open>Lines 125 to 173, the branches after the one for \<^verbatim>\<open>CommandNotFound\<close>.\<close>

definition dispatch :: "bot \<Rightarrow> Context \<Rightarrow> error \<Rightarrow> result" where
  "dispatch b ctx e =
    (if isinstance e BadArgument then
       finish ctx [Send (''Bad argument: '' @ message e @ [CHR 0x0A]),
                   Invoke (fst (help_command b ctx)) (snd (help_command b ctx))]
     else if isinstance e UserInputError then
       finish ctx [Send ''Something about your input seems off. Check the arguments:'',
                   Invoke (fst (help_command b ctx)) (snd (help_command b ctx)),
                   Log DEBUG (invoked_with_error ctx e)]
     else if isinstance e NoPrivateMessage then
       finish ctx [Send (''Sorry, this command can'' @ [CHR 0x27]
                         @ ''t be used in a private message!'')]
     else if isinstance e BotMissingPermissions then
       finish ctx [Send (''Sorry, it looks like I don'' @ [CHR 0x27]
                         @ ''t have the permissions I need to do that.''),
                   Log WARNING (''The bot is missing permissions to execute command ''
                                @ str_command (command ctx) @ '': ''
                                @ repr_list (missing_perms e))]
     else if isinstance e MissingPermissions then
       finish ctx [Log DEBUG (author ctx @ '' is missing permissions to invoke command ''
                              @ str_command (command ctx) @ '': ''
                              @ repr_list (missing_perms e))]
     else if isinstance e InChannelCheckFailure then
       finish ctx [Send (message e)]
     else if isinstance e CheckFailure \<or> isinstance e CommandOnCooldown
             \<or> isinstance e DisabledCommand then
       finish ctx [Log DEBUG (invoked_with_error ctx e)]
     else if isinstance e CommandInvokeError then
       (case original e of
          None \<Rightarrow> raising ctx [] AttributeError
        | Some orig \<Rightarrow>
            if isinstance orig ResponseCodeError then
              (case response orig of
                 None \<Rightarrow> raising ctx [] AttributeError
               | Some r \<Rightarrow>
                   if status r = 404 then
                     finish ctx [Send ''There does not seem to be anything matching your query.'']
                   else if status r = 400 then
                     finish ctx
                       [Log DEBUG (''API responded with 400 for command ''
                                   @ str_command (command ctx) @ '': '' @ json_repr r @ ''.''),
                        Send ''According to the API, your request is malformed.'']
                   else if 500 \<le> status r \<and> status r < 600 then
                     finish ctx
                       [Send ''Sorry, there seems to be an internal issue with the API.'',
                        Log WARNING (''API responded with '' @ str_int (status r)
                                     @ '' for command '' @ str_command (command ctx))]
                   else
                     finish ctx
                       [Send (''Got an unexpected status code from the API (`''
                              @ str_int (status r) @ ''`).''),
                        Log WARNING (''Unexpected API response for command ''
                                     @ str_command (command ctx) @ '': ''
                                     @ str_int (status r))])
            else handle_unexpected_error ctx orig)
     else handle_unexpected_error ctx e)"

text \<open>Lines 36 to 173.\<close>

function on_command_error :: "env \<Rightarrow> bot \<Rightarrow> Context \<Rightarrow> error \<Rightarrow> result" where
  "on_command_error v b ctx e =
    (if handled e then
       finish ctx [Log TRACE (''Command '' @ str_command (command ctx)
                     @ '' had its error already handled locally; ignoring.'')]
     else if isinstance e CommandNotFound \<and> \<not> invoked_from_error_handler ctx then
       (case fallback v b ctx of
          Done r \<Rightarrow> r
        | Again evs ctx1 err \<Rightarrow> redispatch evs (on_command_error v b ctx1 err))
     else dispatch b ctx e)"
  by pat_completeness auto

section \<open>The matcher: \<^verbatim>\<open>difflib.get_close_matches\<close>\<close>

text \<open>
  The model of the function that line 105 calls, after \<^verbatim>\<open>Lib/difflib.py\<close> of CPython. A string
  is the list of its characters, one element for each, with codes below 256.
\<close>

text \<open>
  \<^verbatim>\<open>SequenceMatcher.__chain_b\<close> with \<^verbatim>\<open>isjunk=None\<close> and \<^verbatim>\<open>autojunk=True\<close>: \<^verbatim>\<open>b2j\<close> maps
  an element of \<open>b\<close> to the ascending list of its positions; when \<open>b\<close> has 200 elements or
  more, the elements that occur more than \<^verbatim>\<open>len(b) // 100 + 1\<close> times are dropped from it.
  No element is junk.
\<close>

definition indices :: "string \<Rightarrow> char \<Rightarrow> nat list" where
  "indices b c = filter (\<lambda>j. b ! j = c) [0..<length b]"

definition popular :: "string \<Rightarrow> char \<Rightarrow> bool" where
  "popular b c = (200 \<le> length b \<and> length b div 100 + 1 < length (indices b c))"

definition b2j :: "string \<Rightarrow> char \<Rightarrow> nat list" where
  "b2j b c = (if popular b c then [] else indices b c)"

text \<open>
  \<^verbatim>\<open>find_longest_match(alo, ahi, blo, bhi)\<close>. The inner loop over the positions \<open>j\<close> of
  \<^verbatim>\<open>a[i]\<close> in \<open>b\<close> is \<open>row\<close>, with its \<^verbatim>\<open>continue\<close> and \<^verbatim>\<open>break\<close>; the outer loop over
  \<open>i\<close> is \<open>rows\<close>; a dictionary \<^verbatim>\<open>j2len\<close> is a function that is 0 where the dictionary has
  no entry (its entries are positive), and \<^verbatim>\<open>j2len.get(j-1, 0)\<close> is \<open>prev_len\<close>. The two
  loops that follow extend the match on each side. The last two loops of the source extend
  it over junk, and there is none.
\<close>

type_synonym match = "nat \<times> nat \<times> nat"

definition prev_len :: "(nat \<Rightarrow> nat) \<Rightarrow> nat \<Rightarrow> nat" where
  "prev_len j2len j = (if j = 0 then 0 else j2len (j - 1))"

definition update_best :: "nat \<Rightarrow> nat \<Rightarrow> nat \<Rightarrow> match \<Rightarrow> match" where
  "update_best i j k best = (if snd (snd best) < k then (i + 1 - k, j + 1 - k, k) else best)"

fun row :: "nat \<Rightarrow> nat \<Rightarrow> nat \<Rightarrow> (nat \<Rightarrow> nat) \<Rightarrow> nat list \<Rightarrow> (nat \<Rightarrow> nat) \<Rightarrow> match
             \<Rightarrow> (nat \<Rightarrow> nat) \<times> match" where
  "row i blo bhi j2len [] newj2len best = (newj2len, best)"
| "row i blo bhi j2len (j # js) newj2len best =
     (if j < blo then row i blo bhi j2len js newj2len best
      else if bhi \<le> j then (newj2len, best)
      else row i blo bhi j2len js (newj2len(j := prev_len j2len j + 1))
             (update_best i j (prev_len j2len j + 1) best))"

fun rows :: "string \<Rightarrow> string \<Rightarrow> nat \<Rightarrow> nat \<Rightarrow> nat list \<Rightarrow> (nat \<Rightarrow> nat) \<Rightarrow> match \<Rightarrow> match" where
  "rows a b blo bhi [] j2len best = best"
| "rows a b blo bhi (i # is) j2len best =
     (case row i blo bhi j2len (b2j b (a ! i)) (\<lambda>j. 0) best of
        (newj2len, best') \<Rightarrow> rows a b blo bhi is newj2len best')"

function extend_left :: "string \<Rightarrow> string \<Rightarrow> nat \<Rightarrow> nat \<Rightarrow> match \<Rightarrow> match" where
  "extend_left a b alo blo (besti, bestj, bestsize) =
     (if alo < besti \<and> blo < bestj \<and> a ! (besti - 1) = b ! (bestj - 1)
      then extend_left a b alo blo (besti - 1, bestj - 1, bestsize + 1)
      else (besti, bestj, bestsize))"
  by pat_completeness auto
termination
  by (relation "measure (\<lambda>(a, b, alo, blo, besti, bestj, bestsize). besti)") auto

function extend_right :: "string \<Rightarrow> string \<Rightarrow> nat \<Rightarrow> nat \<Rightarrow> match \<Rightarrow> match" where
  "extend_right a b ahi bhi (besti, bestj, bestsize) =
     (if besti + bestsize < ahi \<and> bestj + bestsize < bhi
         \<and> a ! (besti + bestsize) = b ! (bestj + bestsize)
      then extend_right a b ahi bhi (besti, bestj, bestsize + 1)
      else (besti, bestj, bestsize))"
  by pat_completeness auto
termination
  by (relation "measure (\<lambda>(a, b, ahi, bhi, besti, bestj, bestsize). ahi - (besti + bestsize))") auto

declare extend_left.simps [simp del] extend_right.simps [simp del]

definition find_longest_match :: "string \<Rightarrow> string \<Rightarrow> nat \<Rightarrow> nat \<Rightarrow> nat \<Rightarrow> nat \<Rightarrow> match" where
  "find_longest_match a b alo ahi blo bhi =
     extend_right a b ahi bhi
       (extend_left a b alo blo
          (rows a b blo bhi [alo..<ahi] (\<lambda>j. 0) (alo, blo, 0)))"

text \<open>
  \<^verbatim>\<open>get_matching_blocks\<close>: the loop over the queue of regions, which is used as a stack (the
  head of the list is the end of the source's list). The source then sorts the blocks,
  merges adjacent ones and appends one of size 0; \<^verbatim>\<open>ratio\<close> only sums the sizes, which
  these steps leave as they are.
\<close>

type_synonym region = "nat \<times> nat \<times> nat \<times> nat"

function matching_blocks :: "string \<Rightarrow> string \<Rightarrow> region list \<Rightarrow> match list \<Rightarrow> match list" where
  "matching_blocks a b [] acc = acc"
| "matching_blocks a b ((alo, ahi, blo, bhi) # queue) acc =
     (case find_longest_match a b alo ahi blo bhi of
        (i, j, k) \<Rightarrow>
          if k \<noteq> 0 then
            matching_blocks a b
              ((if i + k < ahi \<and> j + k < bhi then [(i + k, ahi, j + k, bhi)] else [])
               @ (if alo < i \<and> blo < j then [(alo, i, blo, j)] else []) @ queue)
              (acc @ [(i, j, k)])
          else matching_blocks a b queue acc)"
  by pat_completeness auto

text \<open>
  \<^verbatim>\<open>_calculate_ratio\<close> and the three ratios. The source computes \<^verbatim>\<open>2.0 * matches / length\<close>
  in floating point and compares it with \<^verbatim>\<open>0.6\<close>; the model has the exact quotient. For
  strings of fewer than \<open>10^7\<close> characters the comparisons agree: the quotient rounds to
  the double \<^verbatim>\<open>0.6\<close> or above exactly when it is at least \<open>3/5\<close>, and two different quotients
  round to different doubles.
\<close>

definition calculate_ratio :: "nat \<Rightarrow> nat \<Rightarrow> rat" where
  "calculate_ratio matches len = (if len \<noteq> 0 then 2 * of_nat matches / of_nat len else 1)"

definition ratio :: "string \<Rightarrow> string \<Rightarrow> rat" where
  "ratio a b =
     calculate_ratio
       (sum_list (map (\<lambda>(i, j, k). k) (matching_blocks a b [(0, length a, 0, length b)] [])))
       (length a + length b)"

fun quick_matches :: "string \<Rightarrow> (char \<Rightarrow> nat) \<Rightarrow> (char \<rightharpoonup> int) \<Rightarrow> nat \<Rightarrow> nat" where
  "quick_matches [] fullbcount avail matches = matches"
| "quick_matches (elt # rest) fullbcount avail matches =
     (let numb = (case avail elt of Some n \<Rightarrow> n | None \<Rightarrow> int (fullbcount elt)) in
      quick_matches rest fullbcount (avail(elt \<mapsto> numb - 1))
        (if 0 < numb then matches + 1 else matches))"

definition quick_ratio :: "string \<Rightarrow> string \<Rightarrow> rat" where
  "quick_ratio a b =
     calculate_ratio (quick_matches a (count_list b) Map.empty 0) (length a + length b)"

definition real_quick_ratio :: "string \<Rightarrow> string \<Rightarrow> rat" where
  "real_quick_ratio a b = calculate_ratio (min (length a) (length b)) (length a + length b)"

text \<open>
  \<^verbatim>\<open>get_close_matches(word, possibilities, 1)\<close>, with the default \<^verbatim>\<open>cutoff=0.6\<close>: the
  possibilities that pass the three tests, each with its ratio; \<^verbatim>\<open>heapq.nlargest(1, result)\<close>,
  which for one element is \<^verbatim>\<open>max\<close> over the pairs (the first of the greatest, pairs compared
  by ratio and then by string); and the strings of what is left.
\<close>

definition cutoff :: rat where
  "cutoff = 6 / 10"

definition close_enough :: "string \<Rightarrow> string \<Rightarrow> bool" where
  "close_enough x word =
     (cutoff \<le> real_quick_ratio x word \<and> cutoff \<le> quick_ratio x word \<and> cutoff \<le> ratio x word)"

fun str_less :: "string \<Rightarrow> string \<Rightarrow> bool" where
  "str_less [] [] = False"
| "str_less [] (y # ys) = True"
| "str_less (x # xs) [] = False"
| "str_less (x # xs) (y # ys) = ((of_char x :: nat) < of_char y \<or> (x = y \<and> str_less xs ys))"

definition tuple_less :: "rat \<times> string \<Rightarrow> rat \<times> string \<Rightarrow> bool" where
  "tuple_less p q = (fst p < fst q \<or> (fst p = fst q \<and> str_less (snd p) (snd q)))"

definition nlargest1 :: "(rat \<times> string) list \<Rightarrow> (rat \<times> string) list" where
  "nlargest1 result =
     (case result of
        [] \<Rightarrow> []
      | r # rs \<Rightarrow> [foldl (\<lambda>best item. if tuple_less best item then item else best) r rs])"

definition difflib_get_close_matches :: "string \<Rightarrow> string list \<Rightarrow> string list" where
  "difflib_get_close_matches word possibilities =
     map snd (nlargest1 (map (\<lambda>x. (ratio x word, x))
                           (filter (\<lambda>x. close_enough x word) possibilities)))"

subsection \<open>Notions for reasoning about the matcher\<close>








section \<open>Observations, the table of the specification, inputs\<close>

subsection \<open>What a call is observed to do\<close>

fun is_send :: "event \<Rightarrow> bool" where
  "is_send (Send m) = True"
| "is_send (SendEmbed em d) = True"
| "is_send ev = False"

fun is_log :: "event \<Rightarrow> bool" where
  "is_log (Log l m) = True"
| "is_log ev = False"

fun logged_at :: "level \<Rightarrow> event \<Rightarrow> bool" where
  "logged_at l (Log l' m) = (l = l')"
| "logged_at l ev = False"

definition message_sent :: "result \<Rightarrow> bool" where
  "message_sent r = list_ex is_send (events r)"

definition log_emitted :: "result \<Rightarrow> bool" where
  "log_emitted r = list_ex is_log (events r)"

definition observed :: "result \<Rightarrow> bool \<times> bool \<times> outcome" where
  "observed r = (message_sent r, log_emitted r, outcome r)"

text \<open>The condition of line 76: the error is taken by the branch for \<^verbatim>\<open>CommandNotFound\<close>.\<close>

definition enters_fallback :: "Context \<Rightarrow> error \<Rightarrow> bool" where
  "enters_fallback ctx e = (isinstance e CommandNotFound \<and> \<not> invoked_from_error_handler ctx)"

text \<open>
  The handler gets as far as line 105: the error is unhandled and taken by the branch for
  \<^verbatim>\<open>CommandNotFound\<close>, outside the verification channel; the command \<^verbatim>\<open>tags get\<close> exists and its
  checks pass; the Tags cog exists and displays no tag for the name.
\<close>

definition reaches_matcher :: "env \<Rightarrow> bot \<Rightarrow> Context \<Rightarrow> error \<Rightarrow> bool" where
  "reaches_matcher v b ctx e =
     (\<not> handled e \<and> enters_fallback ctx e \<and> channel_id ctx \<noteq> verification v
      \<and> (case get_command b ''tags get'' of
            None \<Rightarrow> False
          | Some tg \<Rightarrow> can_run tg = Returns True)
      \<and> (case get_cog_Tags b of
            None \<Rightarrow> False
          | Some tc \<Rightarrow> \<not> display_tag tc (invoked_with ctx)))"

text \<open>Lines 119 to 123: the embed that suggests the command \<open>m\<close>, deleted after 7 seconds.\<close>

definition suggestion :: "env \<Rightarrow> Context \<Rightarrow> string \<Rightarrow> event" where
  "suggestion v ctx m =
     SendEmbed \<lparr>author_name = ''Did you mean:'', icon_url = questionmark v,
                description = replace_first (invoked_with ctx) m (content ctx)\<rparr> 7"

text \<open>The classes tested by the branches of lines 125 to 154.\<close>

definition later_classes :: "exc_class list" where
  "later_classes = [BadArgument, UserInputError, NoPrivateMessage, BotMissingPermissions,
     MissingPermissions, InChannelCheckFailure, CheckFailure, CommandOnCooldown,
     DisabledCommand, CommandInvokeError]"

text \<open>The classes tested before line 154, where \<^verbatim>\<open>CommandInvokeError\<close> is.\<close>

definition before_invoke :: "exc_class list" where
  "before_invoke = [BadArgument, UserInputError, NoPrivateMessage, BotMissingPermissions,
     MissingPermissions, InChannelCheckFailure, CheckFailure, CommandOnCooldown,
     DisabledCommand]"

text \<open>
  The attributes that lines 155 and 156 read are there: a \<^verbatim>\<open>CommandInvokeError\<close> has its
  \<^verbatim>\<open>original\<close>, and an API error its \<^verbatim>\<open>response\<close>, as the constructors of both
  classes set them.
\<close>

definition attributes_present :: "error \<Rightarrow> bool" where
  "attributes_present e =
     (if isinstance e CommandInvokeError then
        (case original e of None \<Rightarrow> False
         | Some orig \<Rightarrow> if isinstance orig ResponseCodeError then response orig \<noteq> None else True)
      else True)"

subsection \<open>The dispatch table of the specification\<close>

text \<open>
  Rows 3 to 11 of the table of the specification (section 4.1), first match wins: whether a
  message is sent, whether a log entry is written, and how the handler ends. The responder
  for unexpected errors sends, logs and raises the error it was given.
\<close>

definition spec_table :: "error \<Rightarrow> bool \<times> bool \<times> outcome" where
  "spec_table e =
    (if isinstance e BadArgument then (True, False, Returned)
     else if isinstance e UserInputError then (True, True, Returned)
     else if isinstance e NoPrivateMessage then (True, False, Returned)
     else if isinstance e BotMissingPermissions then (True, True, Returned)
     else if isinstance e MissingPermissions then (False, True, Returned)
     else if isinstance e InChannelCheckFailure then (True, False, Returned)
     else if isinstance e CheckFailure \<or> isinstance e CommandOnCooldown
             \<or> isinstance e DisabledCommand then (False, True, Returned)
     else if isinstance e CommandInvokeError then
       (case original e of
          None \<Rightarrow> (True, True, Raised (Exc e))
        | Some orig \<Rightarrow>
            if isinstance orig ResponseCodeError then
              (case response orig of
                 None \<Rightarrow> (True, True, Raised (Exc orig))
               | Some r \<Rightarrow> if status r = 404 then (True, False, Returned)
                           else (True, True, Returned))
            else (True, True, Raised (Exc orig)))
     else (True, True, Raised (Exc e)))"

subsection \<open>Concrete inputs\<close>

text \<open>
  The base classes, among the classes the handler tests, as \<^verbatim>\<open>discord.ext.commands\<close> and
  \<^verbatim>\<open>bot.decorators\<close> declare them; an exception of class \<open>c\<close> raised by the framework,
  with message \<open>m\<close>.
\<close>

definition discord_bases :: "exc_class \<Rightarrow> exc_class list" where
  "discord_bases c =
     (if c = BadArgument then [UserInputError, CommandError]
      else if c \<in> {NoPrivateMessage, BotMissingPermissions, MissingPermissions,
                     InChannelCheckFailure}
        then [CheckFailure, CommandError]
      else if c \<in> {CommandNotFound, UserInputError, CheckFailure, CommandOnCooldown,
                     DisabledCommand, CommandInvokeError}
        then [CommandError]
      else [])"

definition exc :: "exc_class \<Rightarrow> string \<Rightarrow> error" where
  "exc c m = Error c (discord_bases c) m False [] None None"

definition help_cmd :: command where
  "help_cmd = \<lparr>name = ''help'', qualified_name = ''help'', parent = None, aliases = [],
               hidden = False, can_run = Returns True\<rparr>"

definition ctx0 :: Context where
  "ctx0 = \<lparr>command = None, channel_id = 267624335836053506, invoked_with = ''hlep'',
           content = ''!hlep me'', author = ''user#0001'',
           invoked_from_error_handler = False\<rparr>"

definition bot0 :: bot where
  "bot0 = \<lparr>get_cog_Tags = None,
           get_command = (\<lambda>n. if n = ''help'' then Some help_cmd else None),
           walk_commands = [help_cmd]\<rparr>"

definition env0 :: env where
  "env0 = \<lparr>verification = 352442727016693763,
           questionmark = ''https://cdn.discordapp.com/emojis/512367613339369475.png'',
           get_close_matches = difflib_get_close_matches\<rparr>"

text \<open>The exception the framework raises for an unknown command name.\<close>

definition command_not_found :: "string \<Rightarrow> error" where
  "command_not_found n =
     exc CommandNotFound (''Command '' @ [CHR 0x22] @ n @ [CHR 0x22] @ '' is not found'')"

text \<open>An exception that a local handler has marked.\<close>

definition handled_exc :: "exc_class \<Rightarrow> string \<Rightarrow> error" where
  "handled_exc c m = Error c (discord_bases c) m True [] None None"

text \<open>A \<^verbatim>\<open>CommandInvokeError\<close> around an API error with status \<open>s\<close>.\<close>

definition api_error :: "int \<Rightarrow> string \<Rightarrow> error" where
  "api_error s body =
     Error CommandInvokeError [CommandError] ''Command raised an exception'' False []
       (Some (Error ResponseCodeError [OtherClass ''ValueError''] ''Status'' False [] None
                (Some \<lparr>status = s, json_repr = body\<rparr>)))
       None"

text \<open>The same, marked by a local handler.\<close>

definition handled_api_error :: "int \<Rightarrow> string \<Rightarrow> error" where
  "handled_api_error s body =
     Error CommandInvokeError [CommandError] ''Command raised an exception'' True []
       (Some (Error ResponseCodeError [OtherClass ''ValueError''] ''Status'' False [] None
                (Some \<lparr>status = s, json_repr = body\<rparr>)))
       None"

definition tags_cmd :: command where
  "tags_cmd = \<lparr>name = ''tags'', qualified_name = ''tags'', parent = None, aliases = [''t''],
               hidden = False, can_run = Returns True\<rparr>"

definition tags_get_cmd :: command where
  "tags_get_cmd = \<lparr>name = ''get'', qualified_name = ''tags get'', parent = Some ''tags'',
               aliases = [''show'', ''g''], hidden = False, can_run = Returns True\<rparr>"

text \<open>A command whose checks refuse the invoking user.\<close>

definition ban_cmd :: command where
  "ban_cmd = \<lparr>name = ''ban'', qualified_name = ''ban'', parent = None, aliases = [],
               hidden = False, can_run = Returns False\<rparr>"

definition lookup :: "command list \<Rightarrow> string \<Rightarrow> command option" where
  "lookup cs n = find (\<lambda>c. qualified_name c = n) cs"

text \<open>A bot with the Tags cog loaded, and one that has the cog but not its command.\<close>

definition bot1 :: bot where
  "bot1 = \<lparr>get_cog_Tags = Some \<lparr>display_tag = (\<lambda>n. n = ''rules'')\<rparr>,
           get_command = lookup [help_cmd, tags_cmd, tags_get_cmd, ban_cmd],
           walk_commands = [help_cmd, tags_cmd, tags_get_cmd, ban_cmd]\<rparr>"

definition bot_cog_only :: bot where
  "bot_cog_only = \<lparr>get_cog_Tags = Some \<lparr>display_tag = (\<lambda>n. n = ''rules'')\<rparr>,
           get_command = lookup [help_cmd],
           walk_commands = [help_cmd]\<rparr>"

definition ctx_help :: Context where
  "ctx_help = \<lparr>command = Some help_cmd, channel_id = 267624335836053506,
           invoked_with = ''help'', content = ''!help'', author = ''user#0001'',
           invoked_from_error_handler = False\<rparr>"

definition ctx_verification :: Context where
  "ctx_verification = \<lparr>command = None, channel_id = 352442727016693763,
           invoked_with = ''hlep'', content = ''!hlep'', author = ''user#0001'',
           invoked_from_error_handler = False\<rparr>"

definition ctx_bna :: Context where
  "ctx_bna = \<lparr>command = None, channel_id = 267624335836053506, invoked_with = ''bna'',
           content = ''!bna @user'', author = ''user#0001'',
           invoked_from_error_handler = False\<rparr>"


definition ctx_xyz :: Context where
  "ctx_xyz = \<lparr>command = None, channel_id = 267624335836053506, invoked_with = ''xyz'',
           content = ''!xyz'', author = ''user#0001'',
           invoked_from_error_handler = False\<rparr>"


section \<open>Properties\<close>

subsection \<open>Termination of the handler\<close>

text \<open>
  A nested call is asked for only with the context that line 83 has marked, and the branch
  that asks for it is taken only on a context without the marker.
\<close>

lemma suggest_command_Again:
  "suggest_command v b ctx1 n = Again evs c err \<Longrightarrow> c = ctx1"
  unfolding suggest_command_def
  by (simp split: list.splits sum.splits option.splits if_splits)

lemma fallback_Again:
  "fallback v b ctx = Again evs c err \<Longrightarrow> invoked_from_error_handler c"
  unfolding fallback_def
  by (auto split: sum.splits option.splits if_splits dest: suggest_command_Again)

termination on_command_error
proof (relation "measure (\<lambda>(v, b, ctx, e). if invoked_from_error_handler ctx then 0 else 1)")
  show "wf (measure (\<lambda>(v, b, ctx, e). if invoked_from_error_handler ctx then 0 else (1::nat)))"
    by simp
next
  fix v b ctx e evs ctx1 err
  assume "\<not> handled e" and "isinstance e CommandNotFound \<and> \<not> invoked_from_error_handler ctx"
    and "fallback v b ctx = Again evs ctx1 err"
  then show "((v, b, ctx1, err), (v, b, ctx, e))
      \<in> measure (\<lambda>(v, b, ctx, e). if invoked_from_error_handler ctx then 0 else 1)"
    using fallback_Again [of v b ctx evs ctx1 err] by simp
qed

declare on_command_error.simps [simp del]

subsection \<open>Termination of the matcher\<close>

text \<open>
  A match that \<^verbatim>\<open>find_longest_match\<close> returns with a positive size lies inside the region it
  was asked about, so the regions that \<^verbatim>\<open>get_matching_blocks\<close> puts on its queue are shorter
  than the one it took off.
\<close>

lemma update_best_bounds:
  "k \<le> i + 1 - alo \<Longrightarrow> 1 \<le> k \<Longrightarrow> alo \<le> i \<Longrightarrow>
   alo \<le> fst best \<and> fst best + snd (snd best) \<le> i + 1 \<Longrightarrow>
   alo \<le> fst (update_best i j k best)
   \<and> fst (update_best i j k best) + snd (snd (update_best i j k best)) \<le> i + 1"
  by (auto simp add: update_best_def)

lemma row_bounds:
  "\<forall>j. j2len j \<le> i - alo \<Longrightarrow> alo \<le> i \<Longrightarrow> \<forall>j. new j \<le> i + 1 - alo \<Longrightarrow>
   alo \<le> fst best \<and> fst best + snd (snd best) \<le> i + 1 \<Longrightarrow>
   row i blo bhi j2len js new best = (new', best') \<Longrightarrow>
   (\<forall>j. new' j \<le> i + 1 - alo) \<and> alo \<le> fst best' \<and> fst best' + snd (snd best') \<le> i + 1"
proof (induction js arbitrary: new best)
  case Nil
  then show ?case by simp
next
  case (Cons j js)
  show ?case
  proof (cases "j < blo")
    case True
    with Cons.prems show ?thesis by (intro Cons.IH [of new best]) simp_all
  next
    case nlo: False
    show ?thesis
    proof (cases "bhi \<le> j")
      case True
      with nlo Cons.prems show ?thesis by auto
    next
      case False
      let ?k = "prev_len j2len j + 1"
      have "prev_len j2len j \<le> i - alo"
        using Cons.prems(1) by (simp add: prev_len_def)
      then have k: "?k \<le> i + 1 - alo" "1 \<le> ?k"
        using Cons.prems(2) by auto
      have new: "\<forall>j'. (new(j := ?k)) j' \<le> i + 1 - alo"
        using Cons.prems(3) k by simp
      have best: "alo \<le> fst (update_best i j ?k best)
         \<and> fst (update_best i j ?k best) + snd (snd (update_best i j ?k best)) \<le> i + 1"
        using update_best_bounds [OF k Cons.prems(2) Cons.prems(4)] .
      have step: "row i blo bhi j2len js (new(j := ?k)) (update_best i j ?k best) = (new', best')"
        using Cons.prems(5) nlo False by simp
      show ?thesis
        using Cons.IH [OF Cons.prems(1,2) new best step] .
    qed
  qed
qed

lemma rows_bounds:
  "alo \<le> m \<Longrightarrow> m \<le> ahi \<Longrightarrow> \<forall>j. j2len j \<le> m - alo \<Longrightarrow>
   alo \<le> fst best \<and> fst best + snd (snd best) \<le> m \<Longrightarrow>
   alo \<le> fst (rows a b blo bhi [m..<ahi] j2len best)
   \<and> fst (rows a b blo bhi [m..<ahi] j2len best)
       + snd (snd (rows a b blo bhi [m..<ahi] j2len best)) \<le> ahi"
proof (induction "ahi - m" arbitrary: m j2len best)
  case 0
  then show ?case by simp
next
  case (Suc n)
  then have lt: "m < ahi" by simp
  obtain new' best' where r: "row m blo bhi j2len (b2j b (a ! m)) (\<lambda>j. 0) best = (new', best')"
    by (cases "row m blo bhi j2len (b2j b (a ! m)) (\<lambda>j. 0) best") auto
  have inv: "(\<forall>j. new' j \<le> m + 1 - alo) \<and> alo \<le> fst best' \<and> fst best' + snd (snd best') \<le> m + 1"
    using row_bounds [OF Suc.prems(3) Suc.prems(1) _ _ r] Suc.prems(4) by simp
  have n: "n = ahi - Suc m" using Suc.hyps(2) by simp
  have "alo \<le> fst (rows a b blo bhi [Suc m..<ahi] new' best')
   \<and> fst (rows a b blo bhi [Suc m..<ahi] new' best')
       + snd (snd (rows a b blo bhi [Suc m..<ahi] new' best')) \<le> ahi"
    using Suc.hyps(1) [OF n, of new' best'] Suc.prems(1) lt inv by simp
  then show ?case using lt r by (simp add: upt_conv_Cons)
qed

lemma extend_left_bounds:
  "alo \<le> fst best \<Longrightarrow>
   alo \<le> fst (extend_left a b alo blo best)
   \<and> fst (extend_left a b alo blo best) + snd (snd (extend_left a b alo blo best))
      = fst best + snd (snd best)"
proof (induction a b alo blo best rule: extend_left.induct)
  case (1 a b alo blo besti bestj bestsize)
  show ?case
  proof (cases "alo < besti \<and> blo < bestj \<and> a ! (besti - 1) = b ! (bestj - 1)")
    case True
    have eq: "extend_left a b alo blo (besti, bestj, bestsize)
        = extend_left a b alo blo (besti - 1, bestj - 1, bestsize + 1)"
      by (subst extend_left.simps) (insert True, simp)
    have "alo \<le> fst (besti - 1, bestj - 1, bestsize + 1)" using True by auto
    from "1.IH" [OF True this] True show ?thesis unfolding eq by auto
  next
    case False
    have "extend_left a b alo blo (besti, bestj, bestsize) = (besti, bestj, bestsize)"
      by (subst extend_left.simps) (insert False, auto)
    then show ?thesis using "1.prems" by simp
  qed
qed

lemma extend_right_bounds:
  "fst best + snd (snd best) \<le> ahi \<Longrightarrow>
   fst (extend_right a b ahi bhi best) = fst best
   \<and> fst best + snd (snd (extend_right a b ahi bhi best)) \<le> ahi"
proof (induction a b ahi bhi best rule: extend_right.induct)
  case (1 a b ahi bhi besti bestj bestsize)
  show ?case
  proof (cases "besti + bestsize < ahi \<and> bestj + bestsize < bhi
         \<and> a ! (besti + bestsize) = b ! (bestj + bestsize)")
    case True
    have eq: "extend_right a b ahi bhi (besti, bestj, bestsize)
        = extend_right a b ahi bhi (besti, bestj, bestsize + 1)"
      by (subst extend_right.simps) (insert True, simp)
    have "fst (besti, bestj, bestsize + 1) + snd (snd (besti, bestj, bestsize + 1)) \<le> ahi"
      using True by auto
    from "1.IH" [OF True this] show ?thesis unfolding eq by simp
  next
    case False
    have "extend_right a b ahi bhi (besti, bestj, bestsize) = (besti, bestj, bestsize)"
      by (subst extend_right.simps) (insert False, auto)
    then show ?thesis using "1.prems" by simp
  qed
qed

lemma extend_right_empty:
  "\<not> fst best + snd (snd best) < ahi \<Longrightarrow> extend_right a b ahi bhi best = best"
  by (cases best) (simp add: extend_right.simps)

lemma extend_left_empty:
  "\<not> alo < fst best \<Longrightarrow> extend_left a b alo blo best = best"
  by (cases best) (simp add: extend_left.simps)

lemma find_longest_match_bounds:
  assumes "find_longest_match a b alo ahi blo bhi = (i, j, k)" "k \<noteq> 0"
  shows "alo \<le> i \<and> i + k \<le> ahi"
proof (cases "alo \<le> ahi")
  case True
  let ?r = "rows a b blo bhi [alo..<ahi] (\<lambda>j. 0) (alo, blo, 0)"
  have r: "alo \<le> fst ?r \<and> fst ?r + snd (snd ?r) \<le> ahi"
    using rows_bounds [of alo alo ahi "\<lambda>j. 0" "(alo, blo, 0)" a b blo bhi] True by simp
  let ?l = "extend_left a b alo blo ?r"
  have l: "alo \<le> fst ?l \<and> fst ?l + snd (snd ?l) \<le> ahi"
    using extend_left_bounds [of alo ?r a b blo] r by simp
  have "fst (extend_right a b ahi bhi ?l) = fst ?l
     \<and> fst ?l + snd (snd (extend_right a b ahi bhi ?l)) \<le> ahi"
    using extend_right_bounds [of ?l ahi a b bhi] l by simp
  then show ?thesis using assms(1) l by (simp add: find_longest_match_def)
next
  case False
  then have "find_longest_match a b alo ahi blo bhi = (alo, blo, 0)"
    by (simp add: find_longest_match_def extend_left_empty extend_right_empty)
  with assms show ?thesis by simp
qed

termination matching_blocks
proof (relation "measure (\<lambda>(a, b, queue, acc).
          sum_list (map (\<lambda>(alo, ahi, blo, bhi). 2 * (ahi - alo) + 1) queue))", goal_cases)
  case 1
  show ?case by simp
next
  case (2 a b alo ahi blo bhi queue acc i y j k)
  then have "find_longest_match a b alo ahi blo bhi = (i, j, k)" by simp
  from find_longest_match_bounds [OF this] 2(3) have "alo \<le> i \<and> i + k \<le> ahi" by simp
  then show ?case using 2(3) by auto
next
  case (3 a b alo ahi blo bhi queue acc i y j k)
  then show ?case by simp
qed

subsection \<open>The three ratios\<close>




























subsection \<open>The three ways through the handler\<close>

lemma on_command_error_handled:
  "handled e \<Longrightarrow> on_command_error v b ctx e =
     finish ctx [Log TRACE (''Command '' @ str_command (command ctx)
                   @ '' had its error already handled locally; ignoring.'')]"
  by (simp add: on_command_error.simps)

lemma on_command_error_dispatch:
  "\<not> handled e \<Longrightarrow> \<not> enters_fallback ctx e \<Longrightarrow> on_command_error v b ctx e = dispatch b ctx e"
  by (subst on_command_error.simps) (auto simp add: enters_fallback_def)

lemma on_command_error_fallback:
  "\<not> handled e \<Longrightarrow> enters_fallback ctx e \<Longrightarrow> on_command_error v b ctx e =
     (case fallback v b ctx of
          Done r \<Rightarrow> r
        | Again evs ctx1 err \<Rightarrow> redispatch evs (on_command_error v b ctx1 err))"
  by (subst on_command_error.simps) (simp add: enters_fallback_def)

lemma no_case_match_unexpected:
  assumes "\<not> handled e" "\<not> enters_fallback ctx e"
    "list_all (\<lambda>c. \<not> isinstance e c) later_classes"
  shows "on_command_error v b ctx e = handle_unexpected_error ctx e"
  using assms by (simp add: on_command_error_dispatch dispatch_def later_classes_def)

subsection \<open>Nesting\<close>

lemma dispatch_depth: "depth (dispatch b ctx e) = 0"
  unfolding dispatch_def
  by (simp add: finish_def raising_def handle_unexpected_error_def split: option.splits)

lemma depth_marked:
  "invoked_from_error_handler ctx \<Longrightarrow> depth (on_command_error v b ctx e) = 0"
  by (cases "handled e")
     (simp_all add: on_command_error_handled on_command_error_dispatch enters_fallback_def
        dispatch_depth finish_def)

lemma suggest_command_Done:
  "suggest_command v b ctx1 n = Done r \<Longrightarrow> depth r = 0"
  unfolding suggest_command_def
  by (auto simp add: finish_def raising_def split: list.splits sum.splits option.splits if_splits)

lemma fallback_Done:
  "fallback v b ctx = Done r \<Longrightarrow> depth r = 0"
  unfolding fallback_def
  by (auto simp add: finish_def raising_def split: sum.splits option.splits if_splits
        dest: suggest_command_Done)

text \<open>
  C8: the handler is called again only from the branch for \<^verbatim>\<open>CommandNotFound\<close>, on a context
  that carries the marker by then, and the marker keeps the nested call out of that branch:
  for every error and context at most one call is nested inside the first, whichever of
  the two checks fails.
\<close>

theorem redispatch_depth_bounded: "depth (on_command_error v b ctx e) \<le> 1"
proof -
  consider (h) "handled e" | (f) "\<not> handled e" "enters_fallback ctx e"
    | (d) "\<not> handled e" "\<not> enters_fallback ctx e"
    by blast
  then show ?thesis
  proof cases
    case h
    then show ?thesis by (simp add: on_command_error_handled finish_def)
  next
    case f
    show ?thesis
    proof (cases "fallback v b ctx")
      case (Done r)
      then show ?thesis using f fallback_Done [OF Done]
        by (simp add: on_command_error_fallback)
    next
      case (Again evs c err)
      then show ?thesis using f fallback_Again [OF Again]
        by (simp add: on_command_error_fallback redispatch_def depth_marked)
    qed
  next
    case d
    then show ?thesis by (simp add: on_command_error_dispatch dispatch_depth)
  qed
qed

subsection \<open>The responder for unexpected errors\<close>

text \<open>
  C9: for every context and error, \<^verbatim>\<open>handle_unexpected_error\<close> sends a message that
  contains the name of the error's class and its text, logs at error level a line with
  the invoking user and the text of the message, and raises the error again; and every
  error that no branch of the handler takes is passed to it.
\<close>

theorem unexpected_error_responder:
  "(\<exists>pre post. events (handle_unexpected_error ctx e) =
       [Send (pre @ class_name (cls e) @ '': '' @ message e @ post),
        Log ERROR (''Error executing command invoked by '' @ author ctx @ '': '' @ content ctx)])
   \<and> outcome (handle_unexpected_error ctx e) = Raised (Exc e)
   \<and> (\<not> handled e \<and> \<not> enters_fallback ctx e
        \<and> list_all (\<lambda>c. \<not> isinstance e c) later_classes
      \<longrightarrow> on_command_error v b ctx e = handle_unexpected_error ctx e)"
proof (intro conjI impI)
  show "\<exists>pre post. events (handle_unexpected_error ctx e) =
       [Send (pre @ class_name (cls e) @ '': '' @ message e @ post),
        Log ERROR (''Error executing command invoked by '' @ author ctx @ '': '' @ content ctx)]"
    by (rule exI [of _ "''Sorry, an unexpected error occurred. Please let us know!''
                          @ [CHR 0x0A, CHR 0x0A] @ ''```''"], rule exI [of _ "''```''"])
       (simp add: handle_unexpected_error_def raising_def)
  show "outcome (handle_unexpected_error ctx e) = Raised (Exc e)"
    by (simp add: handle_unexpected_error_def raising_def)
  assume "\<not> handled e \<and> \<not> enters_fallback ctx e
        \<and> list_all (\<lambda>c. \<not> isinstance e c) later_classes"
  then show "on_command_error v b ctx e = handle_unexpected_error ctx e"
    by (simp add: no_case_match_unexpected)
qed

theorem unexpected_error_responder_witness:
  "on_command_error env0 bot0 ctx0 (exc (OtherClass ''ConversionError'') ''boom'') =
     \<lparr>outcome = Raised (Exc (exc (OtherClass ''ConversionError'') ''boom'')),
      ctx_after = ctx0,
      events = [Send (''Sorry, an unexpected error occurred. Please let us know!''
                      @ [CHR 0x0A, CHR 0x0A] @ ''```ConversionError: boom```''),
                Log ERROR ''Error executing command invoked by user#0001: !hlep me''],
      depth = 0\<rparr>"
proof -
  let ?e = "exc (OtherClass ''ConversionError'') ''boom''"
  have h: "\<not> handled ?e \<and> \<not> enters_fallback ctx0 ?e
        \<and> list_all (\<lambda>c. \<not> isinstance ?e c) later_classes"
    by (simp add: exc_def enters_fallback_def isinstance_def later_classes_def discord_bases_def)
  from unexpected_error_responder [of ctx0 ?e env0 bot0] h
  have "on_command_error env0 bot0 ctx0 ?e = handle_unexpected_error ctx0 ?e" by blast
  then show ?thesis
    by (simp add: handle_unexpected_error_def raising_def exc_def ctx0_def)
qed

subsection \<open>Errors already handled\<close>

text \<open>
  C2, as amended: for every context and every error that carries \<^verbatim>\<open>handled\<close>, the handler
  sends nothing, invokes nothing, raises nothing and leaves the context as it was; it writes
  one log entry, at trace level, saying that the error was handled locally.
\<close>

theorem handled_error_only_traced:
  assumes "handled e"
  shows "events (on_command_error v b ctx e) =
           [Log TRACE (''Command '' @ str_command (command ctx)
                       @ '' had its error already handled locally; ignoring.'')]
     \<and> outcome (on_command_error v b ctx e) = Returned
     \<and> ctx_after (on_command_error v b ctx e) = ctx"
  using assms by (simp add: on_command_error_handled finish_def)

theorem handled_error_only_traced_witness:
  "events (on_command_error env0 bot0 ctx_help (handled_exc BadArgument ''x'')) =
     [Log TRACE ''Command help had its error already handled locally; ignoring.'']
   \<and> outcome (on_command_error env0 bot0 ctx_help (handled_exc BadArgument ''x'')) = Returned
   \<and> ctx_after (on_command_error env0 bot0 ctx_help (handled_exc BadArgument ''x'')) = ctx_help"
proof -
  have h: "handled (handled_exc BadArgument ''x'')" by (simp add: handled_exc_def)
  show ?thesis using handled_error_only_traced [OF h, of env0 bot0 ctx_help]
    by (simp add: str_command_def ctx_help_def help_cmd_def)
qed

text \<open>The claim as stated fails: line 72 logs.\<close>

theorem handled_error_logs_counterexample:
  "handled (handled_exc BadArgument ''x'')
   \<and> log_emitted (on_command_error env0 bot0 ctx_help (handled_exc BadArgument ''x''))"
  by (simp add: on_command_error.simps handled_exc_def finish_def log_emitted_def)

subsection \<open>The dispatch table\<close>

lemma observed_finish:
  "observed (finish ctx evs) = (list_ex is_send evs, list_ex is_log evs, Returned)"
  by (simp add: observed_def finish_def message_sent_def log_emitted_def)

lemma observed_unexpected:
  "observed (handle_unexpected_error ctx e) = (True, True, Raised (Exc e))"
  by (simp add: observed_def handle_unexpected_error_def raising_def message_sent_def
        log_emitted_def)

lemma dispatch_table:
  "attributes_present e \<Longrightarrow> observed (dispatch b ctx e) = spec_table e"
  unfolding dispatch_def spec_table_def attributes_present_def
  by (auto simp add: observed_finish observed_unexpected split: option.splits if_splits)

lemma spec_table_not_none:
  "fst (spec_table e) \<or> fst (snd (spec_table e)) \<or> snd (snd (spec_table e)) \<noteq> Returned"
  unfolding spec_table_def by (simp split: option.splits)

text \<open>
  C3, as amended: for every error without \<^verbatim>\<open>handled\<close> that the branch for
  \<^verbatim>\<open>CommandNotFound\<close> does not take, and whose attributes are there, the handler does what the
  table gives for the first row that matches: a message only, a log entry only, both, or
  message, log entry and the error raised again; never none of these.
\<close>

theorem dispatch_follows_table:
  assumes "\<not> handled e" "\<not> enters_fallback ctx e" "attributes_present e"
  shows "observed (on_command_error v b ctx e) = spec_table e \<and>
     (message_sent (on_command_error v b ctx e) \<or> log_emitted (on_command_error v b ctx e)
        \<or> outcome (on_command_error v b ctx e) \<noteq> Returned)"
proof -
  have eq: "observed (on_command_error v b ctx e) = spec_table e"
    using assms by (simp add: on_command_error_dispatch dispatch_table)
  from eq spec_table_not_none [of e] show ?thesis
    unfolding observed_def by (metis fst_conv snd_conv)
qed

theorem dispatch_follows_table_witness:
  "observed (on_command_error env0 bot0 ctx_help (exc BotMissingPermissions ''x''))
     = (True, True, Returned)
   \<and> observed (on_command_error env0 bot0 ctx_help (exc MissingPermissions ''x''))
     = (False, True, Returned)
   \<and> observed (on_command_error env0 bot0 ctx_help (exc NoPrivateMessage ''x''))
     = (True, False, Returned)
   \<and> observed (on_command_error env0 bot0 ctx_help (exc (OtherClass ''ConversionError'') ''x''))
     = (True, True, Raised (Exc (exc (OtherClass ''ConversionError'') ''x'')))"
proof -
  have h: "\<not> handled (exc c ''x'')" "c \<noteq> CommandNotFound \<Longrightarrow> \<not> enters_fallback ctx_help (exc c ''x'')"
    "c \<noteq> CommandInvokeError \<Longrightarrow> attributes_present (exc c ''x'')" for c
    by (simp_all add: exc_def enters_fallback_def isinstance_def discord_bases_def
          attributes_present_def)
  have t: "c \<noteq> CommandNotFound \<Longrightarrow> c \<noteq> CommandInvokeError \<Longrightarrow>
      observed (on_command_error env0 bot0 ctx_help (exc c ''x'')) = spec_table (exc c ''x'')" for c
    using dispatch_follows_table [of "exc c ''x''" ctx_help env0 bot0] h [of c] by blast
  show ?thesis
    by (simp add: t) (simp add: spec_table_def exc_def isinstance_def discord_bases_def)
qed

text \<open>The claim as stated fails: in the verification channel an unknown command gets no
  message, no log entry and no exception.\<close>

theorem command_not_found_silent_counterexample:
  "\<not> message_sent (on_command_error env0 bot1 ctx_verification
        (command_not_found ''hlep''))
   \<and> \<not> log_emitted (on_command_error env0 bot1 ctx_verification
        (command_not_found ''hlep''))
   \<and> outcome (on_command_error env0 bot1 ctx_verification
        (command_not_found ''hlep'')) = Returned"
proof -
  have "on_command_error env0 bot1 ctx_verification
        (command_not_found ''hlep'') = finish ctx_verification []"
    by (subst on_command_error.simps)
       (simp add: command_not_found_def exc_def isinstance_def ctx_verification_def fallback_def env0_def)
  then show ?thesis by (simp add: finish_def message_sent_def log_emitted_def)
qed

subsection \<open>The guard on the Tags cog and its command\<close>

text \<open>With neither the cog nor the command, the handler does nothing.\<close>

lemma neither_registered:
  assumes "\<not> handled e" "enters_fallback ctx e" "channel_id ctx \<noteq> verification v"
    "get_cog_Tags b = None" "get_command b ''tags get'' = None"
  shows "on_command_error v b ctx e = finish ctx []"
  using assms by (simp add: on_command_error_fallback fallback_def)

text \<open>
  C4: the claim requires both the Tags cog and the command before the fallback goes on. With
  the cog but not the command, the guard of line 80 lets the handler through: it marks the
  context and the attribute lookup on \<open>None\<close> at line 87 raises.
\<close>

theorem guard_passes_with_cog_only:
  "get_cog_Tags bot_cog_only \<noteq> None \<and> get_command bot_cog_only ''tags get'' = None
   \<and> outcome (on_command_error env0 bot_cog_only ctx0
        (command_not_found ''hlep'')) = Raised AttributeError
   \<and> invoked_from_error_handler (ctx_after (on_command_error env0 bot_cog_only ctx0
        (command_not_found ''hlep'')))"
proof -
  have g: "get_command bot_cog_only ''tags get'' = None"
    by (simp add: bot_cog_only_def lookup_def help_cmd_def)
  have "fallback env0 bot_cog_only ctx0
      = Done (raising (ctx0\<lparr>invoked_from_error_handler := True\<rparr>) [] AttributeError)"
    unfolding fallback_def
    by (simp add: g call_can_run_def caught_def) (simp add: bot_cog_only_def ctx0_def env0_def)
  then have "on_command_error env0 bot_cog_only ctx0
        (command_not_found ''hlep'')
      = raising (ctx0\<lparr>invoked_from_error_handler := True\<rparr>) [] AttributeError"
    by (subst on_command_error.simps) (simp add: command_not_found_def exc_def isinstance_def ctx0_def)
  then show ?thesis using g by (simp add: raising_def bot_cog_only_def)
qed

subsection \<open>API errors\<close>

lemma api_status_dispatch:
  assumes "\<not> handled e" "\<not> enters_fallback ctx e"
    "list_all (\<lambda>c. \<not> isinstance e c) before_invoke" "isinstance e CommandInvokeError"
    "original e = Some orig" "isinstance orig ResponseCodeError" "response orig = Some r"
  shows "on_command_error v b ctx e =
     (if status r = 404 then
        finish ctx [Send ''There does not seem to be anything matching your query.'']
      else if status r = 400 then
        finish ctx
          [Log DEBUG (''API responded with 400 for command '' @ str_command (command ctx)
                      @ '': '' @ json_repr r @ ''.''),
           Send ''According to the API, your request is malformed.'']
      else if status r \<in> {500..599} then
        finish ctx
          [Send ''Sorry, there seems to be an internal issue with the API.'',
           Log WARNING (''API responded with '' @ str_int (status r) @ '' for command ''
                        @ str_command (command ctx))]
      else
        finish ctx
          [Send (''Got an unexpected status code from the API (`'' @ str_int (status r)
                 @ ''`).''),
           Log WARNING (''Unexpected API response for command '' @ str_command (command ctx)
                        @ '': '' @ str_int (status r))])"
proof -
  have "on_command_error v b ctx e = dispatch b ctx e"
    using assms(1,2) by (rule on_command_error_dispatch)
  moreover have "(500 \<le> status r \<and> status r < 600) = (status r \<in> {500..599})"
    by auto
  ultimately show ?thesis
    using assms(3-7) unfolding dispatch_def before_invoke_def by simp
qed

text \<open>
  C5, as amended: for every \<^verbatim>\<open>CommandInvokeError\<close> that carries no \<^verbatim>\<open>handled\<close> marker, is
  an instance of no class that an earlier branch tests, and wraps an API error, the handler
  returns and what it sends and logs depends on the status: 404 sends the "nothing
  matching" message and nothing else; 400 logs the body at debug level and sends the
  "malformed" message; 500 to 599 sends the "internal issue" message and logs at warning
  level; any other status sends a message with the status in it and logs at warning level.
\<close>

theorem api_status_branches:
  assumes "\<not> handled e" "\<not> enters_fallback ctx e"
    "list_all (\<lambda>c. \<not> isinstance e c) before_invoke" "isinstance e CommandInvokeError"
    "original e = Some orig" "isinstance orig ResponseCodeError" "response orig = Some r"
  shows "outcome (on_command_error v b ctx e) = Returned
     \<and> events (on_command_error v b ctx e) =
         (if status r = 404 then
            [Send ''There does not seem to be anything matching your query.'']
          else if status r = 400 then
            [Log DEBUG (''API responded with 400 for command '' @ str_command (command ctx)
                        @ '': '' @ json_repr r @ ''.''),
             Send ''According to the API, your request is malformed.'']
          else if status r \<in> {500..599} then
            [Send ''Sorry, there seems to be an internal issue with the API.'',
             Log WARNING (''API responded with '' @ str_int (status r) @ '' for command ''
                          @ str_command (command ctx))]
          else
            [Send (''Got an unexpected status code from the API (`'' @ str_int (status r)
                   @ ''`).''),
             Log WARNING (''Unexpected API response for command '' @ str_command (command ctx)
                          @ '': '' @ str_int (status r))])"
  using api_status_dispatch [OF assms, of v b] by (simp add: finish_def)

theorem api_status_branches_witness:
  "events (on_command_error env0 bot0 ctx_help (api_error 404 ''{}'')) =
     [Send ''There does not seem to be anything matching your query.'']
   \<and> events (on_command_error env0 bot0 ctx_help (api_error 400 ''{}'')) =
     [Log DEBUG ''API responded with 400 for command help: {}.'',
      Send ''According to the API, your request is malformed.'']
   \<and> events (on_command_error env0 bot0 ctx_help (api_error 503 ''{}'')) =
     [Send ''Sorry, there seems to be an internal issue with the API.'',
      Log WARNING ''API responded with 503 for command help'']
   \<and> events (on_command_error env0 bot0 ctx_help (api_error 418 ''{}'')) =
     [Send ''Got an unexpected status code from the API (`418`).'',
      Log WARNING ''Unexpected API response for command help: 418'']
   \<and> outcome (on_command_error env0 bot0 ctx_help (api_error 404 ''{}'')) = Returned
   \<and> outcome (on_command_error env0 bot0 ctx_help (api_error 400 ''{}'')) = Returned
   \<and> outcome (on_command_error env0 bot0 ctx_help (api_error 503 ''{}'')) = Returned
   \<and> outcome (on_command_error env0 bot0 ctx_help (api_error 418 ''{}'')) = Returned"
proof -
  let ?o = "\<lambda>s. Error ResponseCodeError [OtherClass ''ValueError''] ''Status'' False [] None
                (Some \<lparr>status = s, json_repr = ''{}''\<rparr>)"
  have h: "\<not> handled (api_error s ''{}'')" "\<not> enters_fallback ctx_help (api_error s ''{}'')"
    "list_all (\<lambda>c. \<not> isinstance (api_error s ''{}'') c) before_invoke"
    "isinstance (api_error s ''{}'') CommandInvokeError"
    "original (api_error s ''{}'') = Some (?o s)" "isinstance (?o s) ResponseCodeError"
    "response (?o s) = Some \<lparr>status = s, json_repr = ''{}''\<rparr>" for s
    by (simp_all add: api_error_def enters_fallback_def isinstance_def before_invoke_def)
  have c: "str_command (command ctx_help) = ''help''"
    by (simp add: str_command_def ctx_help_def help_cmd_def)
  have s: "str_int 503 = ''503''" "str_int 418 = ''418''"
    by (simp_all add: str_int_def str_nat.simps digit_char_def)
  have t: "outcome (on_command_error env0 bot0 ctx_help (api_error s ''{}'')) = Returned
     \<and> events (on_command_error env0 bot0 ctx_help (api_error s ''{}'')) =
     (if s = 404 then
        [Send ''There does not seem to be anything matching your query.'']
      else if s = 400 then
        [Log DEBUG (''API responded with 400 for command '' @ ''help''
                    @ '': '' @ ''{}'' @ ''.''),
         Send ''According to the API, your request is malformed.'']
      else if s \<in> {500..599} then
        [Send ''Sorry, there seems to be an internal issue with the API.'',
         Log WARNING (''API responded with '' @ str_int s @ '' for command '' @ ''help'')]
      else
        [Send (''Got an unexpected status code from the API (`'' @ str_int s @ ''`).''),
         Log WARNING (''Unexpected API response for command '' @ ''help''
                      @ '': '' @ str_int s)])" for s
    using api_status_branches [of "api_error s ''{}''" ctx_help "?o s"
               "\<lparr>status = s, json_repr = ''{}''\<rparr>" env0 bot0] h [of s]
    by (simp add: c)
  show ?thesis
    by (simp add: t s)
qed

text \<open>The claim as stated fails: an error that a local handler has marked gets no message,
  whatever the status.\<close>

theorem handled_api_error_counterexample:
  "isinstance (handled_api_error 404 ''{}'') CommandInvokeError
   \<and> \<not> message_sent (on_command_error env0 bot0 ctx_help (handled_api_error 404 ''{}''))
   \<and> events (on_command_error env0 bot0 ctx_help (handled_api_error 404 ''{}'')) =
       [Log TRACE ''Command help had its error already handled locally; ignoring.'']"
  by (simp add: on_command_error.simps handled_api_error_def isinstance_def finish_def
        message_sent_def str_command_def ctx_help_def help_cmd_def)

subsection \<open>An unknown command on a marked context\<close>

text \<open>
  C10, as amended: on a context that carries the marker, a \<^verbatim>\<open>CommandNotFound\<close> that carries
  no \<^verbatim>\<open>handled\<close> marker (and is an instance of no class that a later branch tests) is taken
  by no branch: it goes to \<^verbatim>\<open>handle_unexpected_error\<close>, which sends a message, logs at error
  level and raises it again.
\<close>

theorem marked_command_not_found_unexpected:
  assumes "invoked_from_error_handler ctx" "isinstance e CommandNotFound" "\<not> handled e"
    "list_all (\<lambda>c. \<not> isinstance e c) later_classes"
  shows "on_command_error v b ctx e = handle_unexpected_error ctx e
     \<and> message_sent (on_command_error v b ctx e)
     \<and> list_ex (logged_at ERROR) (events (on_command_error v b ctx e))
     \<and> outcome (on_command_error v b ctx e) = Raised (Exc e)"
proof -
  have "\<not> enters_fallback ctx e" using assms(1) by (simp add: enters_fallback_def)
  then have "on_command_error v b ctx e = handle_unexpected_error ctx e"
    using assms by (simp add: no_case_match_unexpected)
  then show ?thesis
    by (simp add: handle_unexpected_error_def raising_def message_sent_def)
qed

theorem marked_command_not_found_unexpected_witness:
  "on_command_error env0 bot1 (ctx0\<lparr>invoked_from_error_handler := True\<rparr>)
       (command_not_found ''hlep'')
     = \<lparr>outcome = Raised (Exc (command_not_found ''hlep'')),
        ctx_after = ctx0\<lparr>invoked_from_error_handler := True\<rparr>,
        events = [Send (''Sorry, an unexpected error occurred. Please let us know!''
                      @ [CHR 0x0A, CHR 0x0A]
                      @ ''```CommandNotFound: Command '' @ [CHR 0x22] @ ''hlep'' @ [CHR 0x22]
                      @ '' is not found```''),
                Log ERROR ''Error executing command invoked by user#0001: !hlep me''],
        depth = 0\<rparr>"
proof -
  let ?e = "command_not_found ''hlep''"
  let ?c = "ctx0\<lparr>invoked_from_error_handler := True\<rparr>"
  have h: "invoked_from_error_handler ?c" "isinstance ?e CommandNotFound" "\<not> handled ?e"
    "list_all (\<lambda>c. \<not> isinstance ?e c) later_classes"
    by (simp_all add: command_not_found_def exc_def isinstance_def later_classes_def discord_bases_def)
  from marked_command_not_found_unexpected [OF h, of env0 bot1]
  have "on_command_error env0 bot1 ?c ?e = handle_unexpected_error ?c ?e" by blast
  then show ?thesis
    by (simp add: handle_unexpected_error_def raising_def command_not_found_def exc_def ctx0_def)
qed

text \<open>The claim as stated fails: with the \<^verbatim>\<open>handled\<close> marker the error is only traced, on
  a marked context too.\<close>

theorem handled_command_not_found_counterexample:
  "invoked_from_error_handler (ctx0\<lparr>invoked_from_error_handler := True\<rparr>)
   \<and> isinstance (handled_exc CommandNotFound ''x'') CommandNotFound
   \<and> \<not> message_sent (on_command_error env0 bot1 (ctx0\<lparr>invoked_from_error_handler := True\<rparr>)
          (handled_exc CommandNotFound ''x''))
   \<and> \<not> list_ex (logged_at ERROR)
          (events (on_command_error env0 bot1 (ctx0\<lparr>invoked_from_error_handler := True\<rparr>)
             (handled_exc CommandNotFound ''x'')))
   \<and> outcome (on_command_error env0 bot1 (ctx0\<lparr>invoked_from_error_handler := True\<rparr>)
        (handled_exc CommandNotFound ''x'')) = Returned"
  by (simp add: on_command_error.simps handled_exc_def isinstance_def finish_def
        message_sent_def)

subsection \<open>The similar command\<close>

lemma fallback_reaches_matcher:
  assumes "reaches_matcher v b ctx e"
  shows "on_command_error v b ctx e =
     (case suggest_command v b (ctx\<lparr>invoked_from_error_handler := True\<rparr>) (invoked_with ctx) of
        Done r \<Rightarrow> r
      | Again evs ctx1 err \<Rightarrow> redispatch evs (on_command_error v b ctx1 err))"
proof -
  from assms obtain tg tc where h: "\<not> handled e" "enters_fallback ctx e"
    "channel_id ctx \<noteq> verification v" "get_command b ''tags get'' = Some tg"
    "can_run tg = Returns True" "get_cog_Tags b = Some tc" "\<not> display_tag tc (invoked_with ctx)"
    by (auto simp add: reaches_matcher_def split: option.splits)
  have "fallback v b ctx
      = suggest_command v b (ctx\<lparr>invoked_from_error_handler := True\<rparr>) (invoked_with ctx)"
    unfolding fallback_def using h(3-7) by (simp add: call_can_run_def)
  then show ?thesis using h(1,2) by (simp add: on_command_error_fallback)
qed

lemma no_match_index_error:
  assumes "reaches_matcher v b ctx e"
    "get_close_matches v (invoked_with ctx) (raw_commands (walk_commands b) []) = []"
  shows "on_command_error v b ctx e =
     raising (ctx\<lparr>invoked_from_error_handler := True\<rparr>) [DisplayTag (invoked_with ctx)] IndexError"
  using assms(2) by (simp add: fallback_reaches_matcher [OF assms(1)] suggest_command_def)

lemma suggestion_sent:
  assumes "reaches_matcher v b ctx e"
    "get_close_matches v (invoked_with ctx) (raw_commands (walk_commands b) []) = m # ms"
    "get_command b m = Some c"
  shows "on_command_error v b ctx e =
     finish (ctx\<lparr>invoked_from_error_handler := True\<rparr>)
       [DisplayTag (invoked_with ctx), suggestion v ctx m]"
  using assms(2,3)
  by (simp add: fallback_reaches_matcher [OF assms(1)] suggest_command_def call_can_run_def
        truthy_def suggestion_def)


lemma raw_bot1:
  "raw_commands (walk_commands bot1) [] = [''help'', ''tags'', ''t'', ''get'', ''show'', ''g'', ''ban'']"
  by (simp add: bot1_def help_cmd_def tags_cmd_def tags_get_cmd_def ban_cmd_def)

lemma matches_bna:
  "difflib_get_close_matches ''bna'' [''help'', ''tags'', ''t'', ''get'', ''show'', ''g'', ''ban'']
     = [''ban'']"
  by code_simp


lemma matches_xyz:
  "difflib_get_close_matches ''xyz'' [''help'', ''tags'', ''t'', ''get'', ''show'', ''g'', ''ban'']
     = []"
  by code_simp


lemma reaches_bot1:
  "invoked_with ctx \<noteq> ''rules'' \<Longrightarrow> \<not> invoked_from_error_handler ctx \<Longrightarrow>
   channel_id ctx \<noteq> 352442727016693763 \<Longrightarrow>
   reaches_matcher env0 bot1 ctx (command_not_found n)"
  by (simp add: reaches_matcher_def command_not_found_def exc_def enters_fallback_def
        isinstance_def env0_def bot1_def lookup_def help_cmd_def tags_cmd_def tags_get_cmd_def)


text \<open>
  C7: nothing guards the list that the matcher returns: whenever the handler gets as far as
  the matcher and the list is empty, line 106 raises \<^verbatim>\<open>IndexError\<close>, and no suggestion is
  sent.
\<close>

theorem empty_match_list_index_error:
  assumes "reaches_matcher v b ctx e"
    "get_close_matches v (invoked_with ctx) (raw_commands (walk_commands b) []) = []"
  shows "outcome (on_command_error v b ctx e) = Raised IndexError
     \<and> \<not> message_sent (on_command_error v b ctx e)"
  using no_match_index_error [OF assms] by (simp add: raising_def message_sent_def)

theorem empty_match_list_index_error_witness:
  "get_close_matches env0 (invoked_with ctx_xyz) (raw_commands (walk_commands bot1) []) = []
   \<and> outcome (on_command_error env0 bot1 ctx_xyz (command_not_found ''xyz'')) = Raised IndexError"
proof -
  have r: "reaches_matcher env0 bot1 ctx_xyz (command_not_found ''xyz'')"
    by (rule reaches_bot1) (simp_all add: ctx_xyz_def)
  have m: "get_close_matches env0 (invoked_with ctx_xyz) (raw_commands (walk_commands bot1) []) = []"
    by (simp add: env0_def ctx_xyz_def raw_bot1 matches_xyz)
  from empty_match_list_index_error [OF r m] m show ?thesis by simp
qed

text \<open>
  C1: the claim has the check of the similar command run like the one of \<^verbatim>\<open>tags get\<close>. Line
  111 calls \<^verbatim>\<open>can_run\<close> and does not await it: the coroutine object is true, the checks never
  run, and the suggestion is sent for a command whose checks refuse the user.
\<close>

theorem suggestion_sent_despite_check:
  "can_run ban_cmd = Returns False
   \<and> get_command bot1 ''ban'' = Some ban_cmd
   \<and> on_command_error env0 bot1 ctx_bna (command_not_found ''bna'') =
       finish (ctx_bna\<lparr>invoked_from_error_handler := True\<rparr>)
         [DisplayTag ''bna'',
          SendEmbed \<lparr>author_name = ''Did you mean:'', icon_url = questionmark env0,
                     description = ''!ban @user''\<rparr> 7]"
proof -
  have r: "reaches_matcher env0 bot1 ctx_bna (command_not_found ''bna'')"
    by (rule reaches_bot1) (simp_all add: ctx_bna_def)
  have m: "get_close_matches env0 (invoked_with ctx_bna) (raw_commands (walk_commands bot1) [])
      = [''ban'']"
    by (simp add: env0_def ctx_bna_def raw_bot1 matches_bna)
  have g: "get_command bot1 ''ban'' = Some ban_cmd"
    by (simp add: bot1_def lookup_def help_cmd_def tags_cmd_def tags_get_cmd_def ban_cmd_def)
  have "replace_first ''bna'' ''ban'' ''!bna @user'' = ''!ban @user''" by simp
  then show ?thesis
    using suggestion_sent [OF r m g] g
    by (simp add: suggestion_def ctx_bna_def) (simp add: ban_cmd_def)
qed


subsection \<open>What the matcher selects\<close>
















end
